theory Spec2Isabelle
  imports Complex_Main "HOL-Library.AList"
begin

section \<open>The store of src/server.js\<close>

text \<open>
  The four Sequelize models of \<^verbatim>\<open>src/server.js\<close> (lines 17--41) with the columns the
  sale registration reads or writes. The timestamp columns (\<^verbatim>\<open>data_venda\<close>,
  \<^verbatim>\<open>createdAt\<close>, \<^verbatim>\<open>updatedAt\<close>) are left out: no branch of the handler reads them.

  \<^verbatim>\<open>preco\<close>, \<^verbatim>\<open>preco_unitario\<close> and \<^verbatim>\<open>total\<close> are \<^verbatim>\<open>FLOAT\<close> columns, \<^verbatim>\<open>estoque\<close> and
  \<^verbatim>\<open>quantidade\<close> are \<^verbatim>\<open>INTEGER\<close> columns, and the handler computes on all of them in
  JavaScript numbers (double precision). They are exact rationals and integers here. The
  two agree wherever the doubles are exact: on the comparison of line 118 always, on the
  subtraction of line 131 and the sum of line 132 for integers of magnitude below
  \<open>2 ^ 53\<close>, as in every scenario below. Beyond that the program rounds, so the
  statements about arbitrary stores and requests below speak of which rows are read and
  written, of the values copied into them, and of the order of stocks (rounding is
  monotone: \<open>x - q\<close> is not negative when \<open>q \<le> x\<close>, and not below \<open>x\<close> when \<open>q \<le> 0\<close>),
  never of the exact result of an arithmetic operation.
\<close>

record Cliente =
  cliente_nome :: string
  email :: string
  cpf :: string

record Produto =
  nome :: string
  descricao :: "string option"
  preco :: rat
  estoque :: int

record Venda =
  ClienteId :: "nat option"
  total :: rat

record ItemVenda =
  quantidade :: int
  preco_unitario :: rat

text \<open>
  \<^verbatim>\<open>Venda.belongsToMany(Produto, { through: ItemVenda })\<close> (lines 49--50) makes
  \<^verbatim>\<open>ItemVenda\<close> the join table of the association: its rows are identified by the pair
  (\<^verbatim>\<open>VendaId\<close>, \<^verbatim>\<open>ProdutoId\<close>), so the table is an association list on that pair, in
  insertion order. The other tables are keyed by their auto-incremented \<^verbatim>\<open>id\<close>;
  \<open>venda_seq\<close> is the last \<^verbatim>\<open>id\<close> the \<^verbatim>\<open>Vendas\<close> table has issued.

  Of the rejections of the database, the model has the one a request can cause: the
  foreign key of a sale on its customer (below). I/O errors are outside this model.
\<close>

record db =
  Clientes :: "nat \<rightharpoonup> Cliente"
  Produtos :: "nat \<rightharpoonup> Produto"
  Vendas :: "nat \<rightharpoonup> Venda"
  ItemVendas :: "((nat \<times> nat) \<times> ItemVenda) list"
  venda_seq :: nat

subsection \<open>Requests and responses\<close>

text \<open>
  The body of \<^verbatim>\<open>POST /vendas\<close> (lines 96--104, 106). A field that is absent from the
  JSON is \<^verbatim>\<open>undefined\<close> after the destructuring: \<open>None\<close> here.
\<close>

record item =
  ProdutoId :: nat
  item_quantidade :: int

record request =
  req_ClienteId :: "nat option"
  itens :: "item list option"

text \<open>
  What \<^verbatim>\<open>Venda.findByPk(venda.id, { include: [Cliente, Produto] })\<close> (lines 139--144)
  returns: the sale, its customer, and every product joined to it with the
  \<^verbatim>\<open>quantidade\<close> and \<^verbatim>\<open>preco_unitario\<close> of the join row.
\<close>

record venda_completa =
  vc_id :: nat
  vc_ClienteId :: "nat option"
  vc_total :: rat
  vc_Cliente :: "Cliente option"
  vc_Produtos :: "(nat \<times> Produto \<times> ItemVenda) list"

datatype json = Erro string | VendaJson "venda_completa option"

record response =
  status :: nat
  body :: json

section \<open>The store operations the handler calls\<close>

text \<open>
  \<^verbatim>\<open>Cliente.hasMany(Venda); Venda.belongsTo(Cliente)\<close> (lines 45--46) puts the foreign
  key \<^verbatim>\<open>Vendas.ClienteId\<close> on \<^verbatim>\<open>Clientes.id\<close>: the database accepts a sale row whose
  \<^verbatim>\<open>ClienteId\<close> is absent (stored as NULL) or names an existing customer, and no other.
\<close>

definition cliente_ok :: "db \<Rightarrow> nat option \<Rightarrow> bool" where
  "cliente_ok s c = (case c of None \<Rightarrow> True | Some i \<Rightarrow> Clientes s i \<noteq> None)"

text \<open>The store once the sale row of line 109 is in: a new row with the next id and the
  default \<^verbatim>\<open>total\<close> 0.0 (line 34).\<close>

definition venda_criada :: "db \<Rightarrow> nat option \<Rightarrow> db" where
  "venda_criada s c =
     s\<lparr>Vendas := (Vendas s)(Suc (venda_seq s) \<mapsto> \<lparr>ClienteId = c, total = 0\<rparr>),
       venda_seq := Suc (venda_seq s)\<rparr>"

text \<open>\<^verbatim>\<open>Venda.create({ ClienteId })\<close> (line 109): the id of the new row and the store
  with it, or \<open>None\<close> when the foreign key rejects the insert; the rejected insert
  throws and writes nothing.\<close>

definition Venda_create :: "db \<Rightarrow> nat option \<Rightarrow> (nat \<times> db) option" where
  "Venda_create s c =
     (if cliente_ok s c then Some (Suc (venda_seq s), venda_criada s c) else None)"

text \<open>
  \<^verbatim>\<open>venda.addProduto(produto, { through: {...} })\<close> (lines 123--128), the \<^verbatim>\<open>add\<close>
  accessor of the \<^verbatim>\<open>belongsToMany\<close> association: it looks the pair
  (\<^verbatim>\<open>VendaId\<close>, \<^verbatim>\<open>ProdutoId\<close>) up in the join table, inserts a row when the pair is not yet
  associated, and otherwise overwrites the \<^verbatim>\<open>through\<close> attributes of the existing row.
  \<open>AList.update\<close> is that operation: replace in place, or append.
\<close>

definition addProduto :: "db \<Rightarrow> nat \<Rightarrow> nat \<Rightarrow> ItemVenda \<Rightarrow> db" where
  "addProduto s vid pid through =
     s\<lparr>ItemVendas := AList.update (vid, pid) through (ItemVendas s)\<rparr>"

text \<open>\<^verbatim>\<open>produto.update({ estoque: ... })\<close> (line 131) on the instance read at line 114.\<close>

definition produto_update :: "db \<Rightarrow> nat \<Rightarrow> Produto \<Rightarrow> int \<Rightarrow> db" where
  "produto_update s pid produto e =
     s\<lparr>Produtos := (Produtos s)(pid \<mapsto> produto\<lparr>estoque := e\<rparr>)\<rparr>"

text \<open>\<^verbatim>\<open>venda.update({ total: totalVenda })\<close> (line 136) on the instance created at
  line 109, whose \<^verbatim>\<open>ClienteId\<close> is the request's.\<close>

definition venda_update :: "db \<Rightarrow> nat \<Rightarrow> nat option \<Rightarrow> rat \<Rightarrow> db" where
  "venda_update s vid c t = s\<lparr>Vendas := (Vendas s)(vid \<mapsto> \<lparr>ClienteId = c, total = t\<rparr>)\<rparr>"

text \<open>The join rows of one sale, and the sale read back with its includes.\<close>

definition itens_da_venda :: "db \<Rightarrow> nat \<Rightarrow> (nat \<times> ItemVenda) list" where
  "itens_da_venda s vid =
     map (\<lambda>((v, p), iv). (p, iv)) (filter (\<lambda>((v, p), iv). v = vid) (ItemVendas s))"

definition Venda_findByPk :: "db \<Rightarrow> nat \<Rightarrow> venda_completa option" where
  "Venda_findByPk s vid =
     (case Vendas s vid of
        None \<Rightarrow> None
      | Some v \<Rightarrow>
          Some \<lparr>vc_id = vid, vc_ClienteId = ClienteId v, vc_total = total v,
                vc_Cliente = (case ClienteId v of None \<Rightarrow> None | Some c \<Rightarrow> Clientes s c),
                vc_Produtos =
                  List.map_filter
                    (\<lambda>(p, iv). case Produtos s p of None \<Rightarrow> None | Some pr \<Rightarrow> Some (p, pr, iv))
                    (itens_da_venda s vid)\<rparr>)"

section \<open>POST /vendas\<close>

text \<open>The two messages of the early returns (lines 115 and 119); the first is
  \<^verbatim>\<open>Produto n\<close>, the two UTF-8 bytes of a-tilde, \<^verbatim>\<open>o encontrado\<close>.\<close>

definition msg_nao_encontrado :: string where
  "msg_nao_encontrado = ''Produto n'' @ [CHR 0xC3, CHR 0xA3] @ ''o encontrado''"

definition msg_estoque :: "string \<Rightarrow> string" where
  "msg_estoque n = ''Estoque insuficiente para '' @ n"

text \<open>
  The loop of lines 113--133 over the remaining items, on the store and the running
  \<^verbatim>\<open>totalVenda\<close>. \<open>Inl\<close> is an early \<^verbatim>\<open>return res.status(...)\<close>, with the store as it is
  at that moment; \<open>Inr\<close> is the loop running to its end.
\<close>

fun processa_itens :: "nat \<Rightarrow> item list \<Rightarrow> db \<times> rat \<Rightarrow> (db \<times> response) + (db \<times> rat)" where
  "processa_itens vid [] (s, totalVenda) = Inr (s, totalVenda)"
| "processa_itens vid (it # its) (s, totalVenda) =
     (case Produtos s (ProdutoId it) of
        None \<Rightarrow> Inl (s, \<lparr>status = 404, body = Erro msg_nao_encontrado\<rparr>)
      | Some produto \<Rightarrow>
          if estoque produto < item_quantidade it
          then Inl (s, \<lparr>status = 400, body = Erro (msg_estoque (nome produto))\<rparr>)
          else
            let s1 = addProduto s vid (ProdutoId it)
                       \<lparr>quantidade = item_quantidade it, preco_unitario = preco produto\<rparr>;
                s2 = produto_update s1 (ProdutoId it) produto
                       (estoque produto - item_quantidade it)
            in processa_itens vid its
                 (s2, totalVenda + preco produto * of_int (item_quantidade it)))"

text \<open>
  The handler (lines 95--152). The sale row is created first (line 109); when the
  insert is rejected, the \<^verbatim>\<open>catch\<close> of lines 148--150 answers 500 and the store is as it
  was. Iterating an absent \<^verbatim>\<open>itens\<close> throws a TypeError, which the same \<^verbatim>\<open>catch\<close> turns
  into a 500; by then the sale row exists.
\<close>

definition post_vendas :: "db \<Rightarrow> request \<Rightarrow> db \<times> response" where
  "post_vendas s req =
     (case Venda_create s (req_ClienteId req) of
        None \<Rightarrow> (s, \<lparr>status = 500, body = Erro ''Erro ao processar venda''\<rparr>)
      | Some (vid, s1) \<Rightarrow>
          (case itens req of
             None \<Rightarrow> (s1, \<lparr>status = 500, body = Erro ''Erro ao processar venda''\<rparr>)
           | Some its \<Rightarrow>
               (case processa_itens vid its (s1, 0) of
                  Inl (s2, r) \<Rightarrow> (s2, r)
                | Inr (s2, totalVenda) \<Rightarrow>
                    let s3 = venda_update s2 vid (req_ClienteId req) totalVenda
                    in (s3, \<lparr>status = 201, body = VendaJson (Venda_findByPk s3 vid)\<rparr>))))"

section \<open>The scenarios of the specification\<close>

definition loja :: db where
  "loja = \<lparr>Clientes = [1 \<mapsto> \<lparr>cliente_nome = ''C1'', email = ''c1@loja'', cpf = ''000''\<rparr>],
           Produtos = [1 \<mapsto> \<lparr>nome = ''P1'', descricao = None, preco = 10, estoque = 5\<rparr>,
                       2 \<mapsto> \<lparr>nome = ''P2'', descricao = None, preco = 20, estoque = 2\<rparr>],
           Vendas = Map.empty, ItemVendas = [], venda_seq = 0\<rparr>"

definition pedido :: "(nat \<times> int) list \<Rightarrow> request" where
  "pedido xs =
     \<lparr>req_ClienteId = Some 1,
      itens = Some (map (\<lambda>(p, q). \<lparr>ProdutoId = p, item_quantidade = q\<rparr>) xs)\<rparr>"

text \<open>The same request from a customer id that names no customer.\<close>

definition pedido_sem_cliente :: "(nat \<times> int) list \<Rightarrow> request" where
  "pedido_sem_cliente xs = (pedido xs)\<lparr>req_ClienteId := Some 99\<rparr>"

definition loja_ab :: db where
  "loja_ab = \<lparr>Clientes = [1 \<mapsto> \<lparr>cliente_nome = ''C1'', email = ''c1@loja'', cpf = ''000''\<rparr>],
              Produtos = [1 \<mapsto> \<lparr>nome = ''A'', descricao = None, preco = 10, estoque = 1\<rparr>,
                          2 \<mapsto> \<lparr>nome = ''B'', descricao = None, preco = 20, estoque = 0\<rparr>],
              Vendas = Map.empty, ItemVendas = [], venda_seq = 0\<rparr>"

section \<open>Properties of a store, and sequences of calls\<close>

text \<open>The store a run of the loop ends in, whichever way it ends.\<close>

definition store_of :: "(db \<times> response) + (db \<times> rat) \<Rightarrow> db" where
  "store_of x = (case x of Inl (s, r) \<Rightarrow> s | Inr (s, t) \<Rightarrow> s)"

text \<open>No product has a negative stock.\<close>

definition stock_ok :: "db \<Rightarrow> bool" where
  "stock_ok s = (\<forall>p pr. Produtos s p = Some pr \<longrightarrow> 0 \<le> estoque pr)"

text \<open>Every join row belongs to a sale whose id has been issued (the foreign key of
  \<^verbatim>\<open>ItemVenda\<close> on \<^verbatim>\<open>Vendas\<close>): the next sale starts with no row.\<close>

definition wf_db :: "db \<Rightarrow> bool" where
  "wf_db s = list_all (\<lambda>(k, iv). fst k \<le> venda_seq s) (ItemVendas s)"

text \<open>The condition under which the loop returns early at an item (lines 115 and 118).\<close>

definition item_falha :: "db \<Rightarrow> item \<Rightarrow> bool" where
  "item_falha s it =
     (case Produtos s (ProdutoId it) of
        None \<Rightarrow> True
      | Some produto \<Rightarrow> estoque produto < item_quantidade it)"

text \<open>The sum of quantity times unit price over the persisted join rows of a sale.\<close>

definition soma_itens :: "db \<Rightarrow> nat \<Rightarrow> rat" where
  "soma_itens s vid =
     sum_list (map (\<lambda>(p, iv). preco_unitario iv * of_int (quantidade iv)) (itens_da_venda s vid))"

text \<open>Calls of the handler one after the other: the store and the response after each.\<close>

fun post_vendas_seq :: "db \<Rightarrow> request list \<Rightarrow> (db \<times> response) list" where
  "post_vendas_seq s [] = []"
| "post_vendas_seq s (req # reqs) =
     (let (s', r) = post_vendas s req in (s', r) # post_vendas_seq s' reqs)"

text \<open>The loop of a call run on the items \<open>pre\<close> only, from the store with the new sale
  row and the running total 0.\<close>

definition apos_itens :: "db \<Rightarrow> request \<Rightarrow> item list \<Rightarrow> (db \<times> response) + (db \<times> rat)" where
  "apos_itens s req pre =
     processa_itens (Suc (venda_seq s)) pre (venda_criada s (req_ClienteId req), 0)"

text \<open>The price the loop reads for a product, and the join rows the loop writes for a
  list of items, one for each.\<close>

definition preco_de :: "db \<Rightarrow> nat \<Rightarrow> rat" where
  "preco_de s p = (case Produtos s p of None \<Rightarrow> 0 | Some produto \<Rightarrow> preco produto)"

definition linhas_pedido :: "db \<Rightarrow> item list \<Rightarrow> (nat \<times> ItemVenda) list" where
  "linhas_pedido s its =
     map (\<lambda>it. (ProdutoId it,
                 \<lparr>quantidade = item_quantidade it, preco_unitario = preco_de s (ProdutoId it)\<rparr>)) its"

section \<open>The loop\<close>

lemmas ops = addProduto_def produto_update_def venda_update_def Venda_create_def
  venda_criada_def cliente_ok_def Let_def

lemmas cenario = post_vendas_def loja_def loja_ab_def pedido_def pedido_sem_cliente_def

text \<open>Processing a list is processing a prefix and then, unless the prefix returned
  early, the rest.\<close>

lemma processa_itens_append:
  "processa_itens vid (pre @ rest) (s, t) =
     (case processa_itens vid pre (s, t) of
        Inl x \<Rightarrow> Inl x
      | Inr st \<Rightarrow> processa_itens vid rest st)"
  by (induction pre arbitrary: s t) (auto simp: Let_def split: option.splits)

text \<open>The loop writes to \<^verbatim>\<open>Produtos\<close> and \<^verbatim>\<open>ItemVendas\<close> only.\<close>

lemma processa_itens_frame:
  "Vendas (store_of (processa_itens vid its (s, t))) = Vendas s \<and>
   Clientes (store_of (processa_itens vid its (s, t))) = Clientes s \<and>
   venda_seq (store_of (processa_itens vid its (s, t))) = venda_seq s"
  by (induction its arbitrary: s t) (auto simp: ops store_of_def split: option.splits)

text \<open>Each decrement is behind the check of line 118, so stocks stay non-negative, also
  when the loop returns early.\<close>

lemma processa_itens_stock_ok:
  "stock_ok s \<Longrightarrow> stock_ok (store_of (processa_itens vid its (s, t)))"
proof (induction its arbitrary: s t)
  case Nil
  then show ?case by (simp add: store_of_def)
next
  case (Cons it its)
  show ?case
  proof (cases "Produtos s (ProdutoId it)")
    case None
    with Cons.prems show ?thesis by (simp add: store_of_def)
  next
    case (Some produto)
    show ?thesis
    proof (cases "estoque produto < item_quantidade it")
      case True
      with Some Cons.prems show ?thesis by (simp add: store_of_def)
    next
      case False
      let ?s2 = "produto_update
                   (addProduto s vid (ProdutoId it)
                      \<lparr>quantidade = item_quantidade it, preco_unitario = preco produto\<rparr>)
                   (ProdutoId it) produto (estoque produto - item_quantidade it)"
      from False Cons.prems have "stock_ok ?s2"
        by (auto simp: stock_ok_def ops)
      from Cons.IH [OF this] Some False show ?thesis by (simp add: Let_def)
    qed
  qed
qed

text \<open>A product no item names, and a join row no item names, are left as they were.\<close>

lemma processa_itens_outros_produtos:
  "p \<notin> ProdutoId ` set its \<Longrightarrow>
   Produtos (store_of (processa_itens vid its (s, t))) p = Produtos s p"
  by (induction its arbitrary: s t) (auto simp: ops store_of_def split: option.splits)

lemma processa_itens_outras_linhas:
  "k \<notin> (\<lambda>it. (vid, ProdutoId it)) ` set its \<Longrightarrow>
   map_of (ItemVendas (store_of (processa_itens vid its (s, t)))) k = map_of (ItemVendas s) k"
  by (induction its arbitrary: s t)
     (auto simp: ops store_of_def update_conv' split: option.splits)

lemma wf_db_sem_linhas: "wf_db s \<Longrightarrow> map_of (ItemVendas s) (Suc (venda_seq s), p) = None"
  by (force simp: wf_db_def list_all_iff map_of_eq_None_iff)

lemma wf_db_itens_da_venda: "wf_db s \<Longrightarrow> itens_da_venda s (Suc (venda_seq s)) = []"
  by (auto simp: wf_db_def list_all_iff itens_da_venda_def filter_empty_conv)

text \<open>A join row, once written, stays, and a run of the loop to its end has written one
  for the product of each item.\<close>

lemma processa_itens_linha_fica:
  "map_of (ItemVendas s) k \<noteq> None \<Longrightarrow>
   map_of (ItemVendas (store_of (processa_itens vid its (s, t)))) k \<noteq> None"
  by (induction its arbitrary: s t)
     (auto simp: ops store_of_def update_conv' split: option.splits)

lemma processa_itens_linhas_existem:
  "processa_itens vid its (s, t) = Inr (s', t') \<Longrightarrow>
   \<forall>it \<in> set its. map_of (ItemVendas s') (vid, ProdutoId it) \<noteq> None"
proof (induction its arbitrary: s t)
  case Nil
  then show ?case by simp
next
  case (Cons it its)
  from Cons.prems obtain produto where pr: "Produtos s (ProdutoId it) = Some produto"
    and ok: "\<not> estoque produto < item_quantidade it"
    by (auto split: option.splits if_splits)
  let ?s2 = "produto_update
               (addProduto s vid (ProdutoId it)
                  \<lparr>quantidade = item_quantidade it, preco_unitario = preco produto\<rparr>)
               (ProdutoId it) produto (estoque produto - item_quantidade it)"
  let ?t2 = "t + preco produto * of_int (item_quantidade it)"
  from Cons.prems pr ok have run: "processa_itens vid its (?s2, ?t2) = Inr (s', t')"
    by (simp add: Let_def)
  have "map_of (ItemVendas ?s2) (vid, ProdutoId it) \<noteq> None"
    by (simp add: ops update_conv')
  from processa_itens_linha_fica [OF this, of vid its ?t2] run
  have "map_of (ItemVendas s') (vid, ProdutoId it) \<noteq> None" by (simp add: store_of_def)
  with Cons.IH [OF run] show ?case by simp
qed

text \<open>Items of quantity at most 0 on existing products pass the check of line 118 when
  no stock is negative, and take no stock down.\<close>

lemma processa_itens_aceita:
  "stock_ok s \<Longrightarrow>
   \<forall>it \<in> set its. item_quantidade it \<le> 0 \<and> ProdutoId it \<in> dom (Produtos s) \<Longrightarrow>
   \<exists>s' t'. processa_itens vid its (s, t) = Inr (s', t')"
proof (induction its arbitrary: s t)
  case Nil
  then show ?case by simp
next
  case (Cons it its)
  from Cons.prems(2) obtain produto where pr: "Produtos s (ProdutoId it) = Some produto"
    and q: "item_quantidade it \<le> 0" by auto
  from Cons.prems(1) pr have e: "0 \<le> estoque produto" by (simp add: stock_ok_def)
  let ?s2 = "produto_update
               (addProduto s vid (ProdutoId it)
                  \<lparr>quantidade = item_quantidade it, preco_unitario = preco produto\<rparr>)
               (ProdutoId it) produto (estoque produto - item_quantidade it)"
  from Cons.prems(1) e q have ok2: "stock_ok ?s2" by (auto simp: stock_ok_def ops)
  from Cons.prems(2) have dom2:
    "\<forall>it \<in> set its. item_quantidade it \<le> 0 \<and> ProdutoId it \<in> dom (Produtos ?s2)"
    by (auto simp: ops)
  from Cons.IH [OF ok2 dom2] pr e q show ?case by (simp add: Let_def)
qed

lemma processa_itens_nao_diminui:
  "processa_itens vid its (s, t) = Inr (s', t') \<Longrightarrow>
   \<forall>it \<in> set its. item_quantidade it \<le> 0 \<Longrightarrow>
   Produtos s p = Some pr \<Longrightarrow>
   \<exists>pr'. Produtos s' p = Some pr' \<and> estoque pr \<le> estoque pr'"
proof (induction its arbitrary: s t pr)
  case Nil
  then show ?case by simp
next
  case (Cons it its)
  from Cons.prems(1) obtain produto where pr: "Produtos s (ProdutoId it) = Some produto"
    and ok: "\<not> estoque produto < item_quantidade it"
    by (auto split: option.splits if_splits)
  let ?s2 = "produto_update
               (addProduto s vid (ProdutoId it)
                  \<lparr>quantidade = item_quantidade it, preco_unitario = preco produto\<rparr>)
               (ProdutoId it) produto (estoque produto - item_quantidade it)"
  let ?t2 = "t + preco produto * of_int (item_quantidade it)"
  from Cons.prems(1) pr ok have run: "processa_itens vid its (?s2, ?t2) = Inr (s', t')"
    by (simp add: Let_def)
  from Cons.prems(2) have q: "item_quantidade it \<le> 0"
    and qs: "\<forall>it \<in> set its. item_quantidade it \<le> 0" by simp_all
  from Cons.prems(3) pr q obtain pr2 where 2: "Produtos ?s2 p = Some pr2"
    and le: "estoque pr \<le> estoque pr2"
    by (cases "ProdutoId it = p") (auto simp: ops)
  from Cons.IH [OF run qs 2] le show ?case by force
qed

text \<open>The loop changes no price and, when the products of the items are pairwise
  distinct and new to the sale, appends one join row for each item.\<close>

lemma preco_de_passo:
  "Produtos s p = Some produto \<Longrightarrow>
   preco_de (produto_update (addProduto s vid p through) p produto e) = preco_de s"
  by (rule ext) (simp add: preco_de_def ops)

lemma update_novo: "map_of al k = None \<Longrightarrow> AList.update k v al = al @ [(k, v)]"
  by (induction al) (auto split: if_splits)

lemma processa_itens_linhas:
  "processa_itens vid its (s, t) = Inr (s', t') \<Longrightarrow>
   distinct (map ProdutoId its) \<Longrightarrow>
   \<forall>it \<in> set its. map_of (ItemVendas s) (vid, ProdutoId it) = None \<Longrightarrow>
   ItemVendas s' =
     ItemVendas s @ map (\<lambda>(p, iv). ((vid, p), iv)) (linhas_pedido s its)"
proof (induction its arbitrary: s t)
  case Nil
  then show ?case by (simp add: linhas_pedido_def)
next
  case (Cons it its)
  from Cons.prems(1) obtain produto where pr: "Produtos s (ProdutoId it) = Some produto"
    and ok: "\<not> estoque produto < item_quantidade it"
    by (auto split: option.splits if_splits)
  let ?iv = "\<lparr>quantidade = item_quantidade it, preco_unitario = preco produto\<rparr>"
  let ?s2 = "produto_update (addProduto s vid (ProdutoId it) ?iv)
               (ProdutoId it) produto (estoque produto - item_quantidade it)"
  from Cons.prems(1) pr ok have run: "processa_itens vid its
      (?s2, t + preco produto * of_int (item_quantidade it)) = Inr (s', t')"
    by (simp add: Let_def)
  from Cons.prems(3) have novo: "map_of (ItemVendas s) (vid, ProdutoId it) = None" by simp
  have iv2: "ItemVendas ?s2 = ItemVendas s @ [((vid, ProdutoId it), ?iv)]"
    by (simp add: ops update_novo [OF novo])
  have livres: "\<forall>it' \<in> set its. map_of (ItemVendas ?s2) (vid, ProdutoId it') = None"
  proof
    fix it' assume mem: "it' \<in> set its"
    with Cons.prems(2) have "ProdutoId it' \<noteq> ProdutoId it" by (auto simp: image_iff)
    moreover from mem Cons.prems(3) have "map_of (ItemVendas s) (vid, ProdutoId it') = None"
      by simp
    ultimately show "map_of (ItemVendas ?s2) (vid, ProdutoId it') = None"
      by (simp add: iv2 map_add_def)
  qed
  from Cons.prems(2) have d: "distinct (map ProdutoId its)" by simp
  from Cons.IH [OF run d livres]
  have "ItemVendas s' = ItemVendas ?s2 @ map (\<lambda>(p, iv). ((vid, p), iv)) (linhas_pedido ?s2 its)" .
  moreover have "linhas_pedido ?s2 its = linhas_pedido s its"
    unfolding linhas_pedido_def preco_de_passo [OF pr] ..
  moreover have "preco_de s (ProdutoId it) = preco produto" using pr by (simp add: preco_de_def)
  ultimately show ?case by (simp add: iv2 linhas_pedido_def)
qed

text \<open>The early returns of the loop answer 404 or 400, and a join row of another sale is
  never touched by the loop.\<close>

lemma processa_itens_status:
  "processa_itens vid its (s, t) = Inl (s2, r) \<Longrightarrow> status r = 404 \<or> status r = 400"
  by (induction its arbitrary: s t) (auto simp: Let_def split: option.splits if_splits)

lemma filter_update_outra:
  "fst k \<noteq> v \<Longrightarrow>
   filter (\<lambda>((v', p), iv). v' = v) (AList.update k x al) =
   filter (\<lambda>((v', p), iv). v' = v) al"
  by (induction al) (auto split: prod.splits)

lemma processa_itens_outras_vendas:
  "v \<noteq> vid \<Longrightarrow>
   itens_da_venda (store_of (processa_itens vid its (s, t))) v = itens_da_venda s v"
  by (induction its arbitrary: s t)
     (auto simp: ops store_of_def itens_da_venda_def filter_update_outra split: option.splits)

section \<open>The handler\<close>

text \<open>A request whose customer id names no customer is answered 500, and the store is as
  it was.\<close>

lemma post_vendas_rejeitada:
  "\<not> cliente_ok s (req_ClienteId req) \<Longrightarrow>
   post_vendas s req = (s, \<lparr>status = 500, body = Erro ''Erro ao processar venda''\<rparr>)"
  by (simp add: post_vendas_def Venda_create_def)

lemma post_vendas_stock_ok: "stock_ok s \<Longrightarrow> stock_ok (fst (post_vendas s req))"
proof (cases "cliente_ok s (req_ClienteId req)")
  case False
  assume "stock_ok s"
  with post_vendas_rejeitada [OF False] show ?thesis by simp
next
  case True
  assume ok: "stock_ok s"
  let ?s1 = "venda_criada s (req_ClienteId req)"
  let ?vid = "Suc (venda_seq s)"
  have ok1: "stock_ok ?s1" using ok by (simp add: stock_ok_def venda_criada_def)
  show ?thesis
  proof (cases "itens req")
    case None
    with ok1 True show ?thesis by (simp add: post_vendas_def Venda_create_def)
  next
    case (Some its)
    from processa_itens_stock_ok [OF ok1, of ?vid its 0] Some True
    show ?thesis
      by (auto simp: post_vendas_def Venda_create_def store_of_def stock_ok_def venda_update_def
               Let_def split: sum.splits)
  qed
qed

text \<open>A call whose sale row is accepted and whose items start with \<open>pre\<close>, once the loop
  has passed \<open>pre\<close>, goes on with the rest from the store and the total reached.\<close>

lemma post_vendas_prefixo:
  assumes "cliente_ok s (req_ClienteId req)"
    and "itens req = Some (pre @ rest)" and "apos_itens s req pre = Inr (s2, t)"
  shows "post_vendas s req =
    (case processa_itens (Suc (venda_seq s)) rest (s2, t) of
       Inl (s3, r) \<Rightarrow> (s3, r)
     | Inr (s3, totalVenda) \<Rightarrow>
         (venda_update s3 (Suc (venda_seq s)) (req_ClienteId req) totalVenda,
          \<lparr>status = 201,
           body = VendaJson (Venda_findByPk
             (venda_update s3 (Suc (venda_seq s)) (req_ClienteId req) totalVenda)
             (Suc (venda_seq s)))\<rparr>))"
  using assms
  by (simp add: post_vendas_def apos_itens_def Venda_create_def Let_def processa_itens_append
           split: sum.splits)

lemma apos_itens_venda:
  assumes "apos_itens s req pre = Inr (s2, t)"
  shows "Vendas s2 = (Vendas s)(Suc (venda_seq s) \<mapsto> \<lparr>ClienteId = req_ClienteId req, total = 0\<rparr>)"
  using processa_itens_frame [of "Suc (venda_seq s)" pre "venda_criada s (req_ClienteId req)" 0] assms
  by (simp add: apos_itens_def store_of_def venda_criada_def)

lemma apos_itens_outros:
  assumes "apos_itens s req pre = Inr (s2, t)"
  shows "p \<notin> ProdutoId ` set pre \<Longrightarrow> Produtos s2 p = Produtos s p"
    and "p \<notin> ProdutoId ` set pre \<Longrightarrow>
         map_of (ItemVendas s2) (Suc (venda_seq s), p) = map_of (ItemVendas s) (Suc (venda_seq s), p)"
proof -
  let ?s1 = "venda_criada s (req_ClienteId req)"
  have s2: "store_of (processa_itens (Suc (venda_seq s)) pre (?s1, 0)) = s2"
    using assms by (simp add: apos_itens_def store_of_def)
  show "p \<notin> ProdutoId ` set pre \<Longrightarrow> Produtos s2 p = Produtos s p"
    using processa_itens_outros_produtos [of p pre "Suc (venda_seq s)" ?s1 0] s2
    by (simp add: venda_criada_def)
  show "p \<notin> ProdutoId ` set pre \<Longrightarrow>
         map_of (ItemVendas s2) (Suc (venda_seq s), p) = map_of (ItemVendas s) (Suc (venda_seq s), p)"
    using processa_itens_outras_linhas [of "(Suc (venda_seq s), p)" "Suc (venda_seq s)" pre ?s1 0] s2
    by (auto simp: venda_criada_def)
qed

text \<open>At an item that fails its checks the loop returns at once, with the store untouched.\<close>

lemma item_falha_retorna:
  "item_falha s2 it \<Longrightarrow>
   processa_itens vid (it # post) (s2, t) =
     Inl (s2, case Produtos s2 (ProdutoId it) of
                None \<Rightarrow> \<lparr>status = 404, body = Erro msg_nao_encontrado\<rparr>
              | Some produto \<Rightarrow> \<lparr>status = 400, body = Erro (msg_estoque (nome produto))\<rparr>)"
  by (simp add: item_falha_def split: option.splits)

lemma post_vendas_falha:
  assumes "cliente_ok s (req_ClienteId req)"
    and "itens req = Some (pre @ it # post)"
    and "apos_itens s req pre = Inr (s2, t)"
    and "item_falha s2 it"
  shows "post_vendas s req =
      (s2, case Produtos s2 (ProdutoId it) of
             None \<Rightarrow> \<lparr>status = 404, body = Erro msg_nao_encontrado\<rparr>
           | Some produto \<Rightarrow> \<lparr>status = 400, body = Erro (msg_estoque (nome produto))\<rparr>)"
  using post_vendas_prefixo [OF assms(1,2,3)] item_falha_retorna [OF assms(4)] by simp

text \<open>A call that answers 201 had its sale row accepted and has run its loop to the end.\<close>

lemma post_vendas_201:
  assumes "itens req = Some its" and "status (snd (post_vendas s req)) = 201"
  shows "cliente_ok s (req_ClienteId req) \<and>
     (\<exists>s2 t. apos_itens s req its = Inr (s2, t) \<and>
        fst (post_vendas s req) = venda_update s2 (Suc (venda_seq s)) (req_ClienteId req) t)"
proof -
  have ok: "cliente_ok s (req_ClienteId req)"
  proof (rule ccontr)
    assume "\<not> cliente_ok s (req_ClienteId req)"
    from post_vendas_rejeitada [OF this] assms(2) show False by simp
  qed
  show ?thesis
  proof (cases "apos_itens s req its")
    case (Inl x)
    obtain s2 r where x: "x = (s2, r)" by (cases x)
    from Inl x assms(1) ok have pv: "post_vendas s req = (s2, r)"
      by (simp add: post_vendas_def apos_itens_def Venda_create_def)
    from Inl x have "status r = 404 \<or> status r = 400"
      unfolding apos_itens_def by (auto dest: processa_itens_status)
    with pv assms(2) show ?thesis by auto
  next
    case (Inr y)
    obtain s2 t where y: "y = (s2, t)" by (cases y)
    from assms(1) have "itens req = Some (its @ [])" by simp
    from post_vendas_prefixo [OF ok this Inr [unfolded y]] Inr y ok show ?thesis by simp
  qed
qed

text \<open>The scenarios' stores are well formed, and their customer exists.\<close>

lemma stock_ok_loja: "stock_ok loja"
  by (simp add: stock_ok_def loja_def)

lemma wf_db_loja: "wf_db loja"
  by (simp add: wf_db_def loja_def)

lemma wf_db_loja_ab: "wf_db loja_ab"
  by (simp add: wf_db_def loja_ab_def)

lemma cliente_ok_loja: "cliente_ok loja (req_ClienteId (pedido xs))"
  by (simp add: cliente_ok_def loja_def pedido_def)

lemma cliente_ok_loja_ab: "cliente_ok loja_ab (req_ClienteId (pedido xs))"
  by (simp add: cliente_ok_def loja_ab_def pedido_def)

section \<open>The claims\<close>

text \<open>
  C2. From the store with P1 (price 10, stock 5) and P2 (price 20, stock 2), the sale of
  two P1 and one P2 to customer 1 answers 201 with a sale of total 40, leaves 3 of P1
  and 1 of P2, and persists two join rows with the unit prices 10 and 20.
\<close>

theorem concrete_sale_scenario:
  "status (snd (post_vendas loja (pedido [(1, 2), (2, 1)]))) = 201 \<and>
   body (snd (post_vendas loja (pedido [(1, 2), (2, 1)]))) =
     VendaJson (Some \<lparr>vc_id = 1, vc_ClienteId = Some 1, vc_total = 40,
       vc_Cliente = Some \<lparr>cliente_nome = ''C1'', email = ''c1@loja'', cpf = ''000''\<rparr>,
       vc_Produtos =
         [(1, \<lparr>nome = ''P1'', descricao = None, preco = 10, estoque = 3\<rparr>,
              \<lparr>quantidade = 2, preco_unitario = 10\<rparr>),
          (2, \<lparr>nome = ''P2'', descricao = None, preco = 20, estoque = 1\<rparr>,
              \<lparr>quantidade = 1, preco_unitario = 20\<rparr>)]\<rparr>) \<and>
   Vendas (fst (post_vendas loja (pedido [(1, 2), (2, 1)]))) 1 =
     Some \<lparr>ClienteId = Some 1, total = 40\<rparr> \<and>
   map_option estoque (Produtos (fst (post_vendas loja (pedido [(1, 2), (2, 1)]))) 1) = Some 3 \<and>
   map_option estoque (Produtos (fst (post_vendas loja (pedido [(1, 2), (2, 1)]))) 2) = Some 1 \<and>
   ItemVendas (fst (post_vendas loja (pedido [(1, 2), (2, 1)]))) =
     [((1, 1), \<lparr>quantidade = 2, preco_unitario = 10\<rparr>),
      ((1, 2), \<lparr>quantidade = 1, preco_unitario = 20\<rparr>)] \<and>
   venda_seq (fst (post_vendas loja (pedido [(1, 2), (2, 1)]))) = 1"
  by (simp add: cenario ops Venda_findByPk_def itens_da_venda_def List.map_filter_def)

text \<open>
  C5. From a store whose stocks are all non-negative, the stocks are all non-negative
  after each call of any sequence of calls of the handler. The calls need not succeed:
  a call that returns early has made only checked decrements too, and a call whose sale
  row is rejected writes nothing, so the statement covers every sequence of successful
  calls in particular.
\<close>

theorem stock_never_negative:
  "stock_ok s \<Longrightarrow> list_all (\<lambda>(s', r). stock_ok s') (post_vendas_seq s reqs)"
proof (induction reqs arbitrary: s)
  case Nil
  then show ?case by simp
next
  case (Cons req reqs)
  from Cons.prems have "stock_ok (fst (post_vendas s req))" by (rule post_vendas_stock_ok)
  with Cons.IH show ?case by (simp add: split_beta Let_def)
qed

theorem stock_never_negative_witness:
  "stock_ok loja \<and>
   list_all (\<lambda>(s', r). stock_ok s')
     (post_vendas_seq loja [pedido [(1, 2), (2, 1)], pedido [(2, 3)], pedido [(1, 3)]]) \<and>
   map (\<lambda>(s', r). status r)
     (post_vendas_seq loja [pedido [(1, 2), (2, 1)], pedido [(2, 3)], pedido [(1, 3)]]) =
     [201, 400, 201]"
  using stock_ok_loja
    stock_never_negative [OF stock_ok_loja,
      of "[pedido [(1, 2), (2, 1)], pedido [(2, 3)], pedido [(1, 3)]]"]
  by (simp add: cenario ops)

text \<open>
  C10, as stated, fails. A request with an empty \<^verbatim>\<open>itens\<close> whose customer id, 99, names
  no customer is answered 500, and the store is as it was: no sale is persisted.
\<close>

theorem empty_items_unknown_customer_counterexample:
  "itens (pedido_sem_cliente []) = Some [] \<and>
   req_ClienteId (pedido_sem_cliente []) = Some 99 \<and>
   Clientes loja 99 = None \<and>
   status (snd (post_vendas loja (pedido_sem_cliente []))) = 500 \<and>
   fst (post_vendas loja (pedido_sem_cliente [])) = loja"
  by (simp add: cenario ops)

text \<open>
  C10, amended. A request whose \<^verbatim>\<open>itens\<close> is the empty list and whose customer id is
  absent or names an existing customer does not fail: the answer is 201 with the new
  sale, bound to the request's customer id, with total 0 and no product; the store gains
  that sale row and nothing else changes (no join row, no stock).
\<close>

theorem empty_items_sale:
  "wf_db s \<Longrightarrow> cliente_ok s (req_ClienteId req) \<Longrightarrow> itens req = Some [] \<Longrightarrow>
   post_vendas s req =
     (s\<lparr>Vendas := (Vendas s)(Suc (venda_seq s) \<mapsto> \<lparr>ClienteId = req_ClienteId req, total = 0\<rparr>),
        venda_seq := Suc (venda_seq s)\<rparr>,
      \<lparr>status = 201,
       body = VendaJson (Some \<lparr>vc_id = Suc (venda_seq s), vc_ClienteId = req_ClienteId req,
         vc_total = 0,
         vc_Cliente = (case req_ClienteId req of None \<Rightarrow> None | Some c \<Rightarrow> Clientes s c),
         vc_Produtos = []\<rparr>)\<rparr>)"
  using wf_db_itens_da_venda [of s]
  by (simp add: post_vendas_def Venda_create_def venda_criada_def venda_update_def Let_def
           Venda_findByPk_def itens_da_venda_def List.map_filter_def split: option.splits)

theorem empty_items_sale_witness:
  "wf_db loja \<and> cliente_ok loja (req_ClienteId (pedido [])) \<and> itens (pedido []) = Some [] \<and>
   status (snd (post_vendas loja (pedido []))) = 201 \<and>
   Vendas (fst (post_vendas loja (pedido []))) 1 = Some \<lparr>ClienteId = Some 1, total = 0\<rparr> \<and>
   ItemVendas (fst (post_vendas loja (pedido []))) = [] \<and>
   Produtos (fst (post_vendas loja (pedido []))) = Produtos loja"
  using wf_db_loja cliente_ok_loja [of "[]"]
    empty_items_sale [OF wf_db_loja cliente_ok_loja, of "[]"]
  by (simp add: pedido_def) (simp add: loja_def)

text \<open>
  C3, as stated, fails. With A in stock (1) and B out of stock (0), the sale of one A
  and one B answers 400 and leaves a sale row (total 0), a join row for A, and A's
  stock at 0 instead of 1; with the single item of three P2 (stock 2), the call answers
  400 and the sale row stays.
\<close>

theorem no_rollback_counterexample:
  "status (snd (post_vendas loja_ab (pedido [(1, 1), (2, 1)]))) = 400 \<and>
   Vendas loja_ab 1 = None \<and>
   Vendas (fst (post_vendas loja_ab (pedido [(1, 1), (2, 1)]))) 1 =
     Some \<lparr>ClienteId = Some 1, total = 0\<rparr> \<and>
   ItemVendas loja_ab = [] \<and>
   ItemVendas (fst (post_vendas loja_ab (pedido [(1, 1), (2, 1)]))) =
     [((1, 1), \<lparr>quantidade = 1, preco_unitario = 10\<rparr>)] \<and>
   map_option estoque (Produtos loja_ab 1) = Some 1 \<and>
   map_option estoque (Produtos (fst (post_vendas loja_ab (pedido [(1, 1), (2, 1)]))) 1) = Some 0 \<and>
   status (snd (post_vendas loja (pedido [(2, 3)]))) = 400 \<and>
   Vendas loja 1 = None \<and>
   Vendas (fst (post_vendas loja (pedido [(2, 3)]))) 1 = Some \<lparr>ClienteId = Some 1, total = 0\<rparr>"
  by (simp add: cenario ops)

text \<open>
  C3, amended. When the sale row has been accepted, the loop has passed the items
  \<open>pre\<close> and the next item fails, nothing is rolled back: the call ends in exactly the
  store the loop had reached. In it the sale row of line 109 stands with total 0 and
  every item of \<open>pre\<close> has its join row. What is untouched is only what the items of
  \<open>pre\<close> did not reach: a product that none of them names has its row unchanged and no
  join row for the attempt, and when the first item fails, no join row is added and no
  stock changes.
\<close>

theorem failure_confined_to_processed_items:
  assumes "wf_db s"
    and "cliente_ok s (req_ClienteId req)"
    and "itens req = Some (pre @ it # post)"
    and "apos_itens s req pre = Inr (s2, t)"
    and "item_falha s2 it"
  shows "fst (post_vendas s req) = s2 \<and>
    Vendas (fst (post_vendas s req)) =
      (Vendas s)(Suc (venda_seq s) \<mapsto> \<lparr>ClienteId = req_ClienteId req, total = 0\<rparr>) \<and>
    (\<forall>it \<in> set pre.
       map_of (ItemVendas (fst (post_vendas s req))) (Suc (venda_seq s), ProdutoId it) \<noteq> None) \<and>
    (\<forall>p. p \<notin> ProdutoId ` set pre \<longrightarrow>
       Produtos (fst (post_vendas s req)) p = Produtos s p \<and>
       map_of (ItemVendas (fst (post_vendas s req))) (Suc (venda_seq s), p) = None) \<and>
    (pre = [] \<longrightarrow>
       Produtos (fst (post_vendas s req)) = Produtos s \<and>
       ItemVendas (fst (post_vendas s req)) = ItemVendas s)"
proof -
  have fim: "fst (post_vendas s req) = s2"
    using post_vendas_falha [OF assms(2,3,4,5)] by simp
  have linhas: "map_of (ItemVendas s2) (Suc (venda_seq s), p) = None"
    if "p \<notin> ProdutoId ` set pre" for p
    using apos_itens_outros(2) [OF assms(4) that] wf_db_sem_linhas [OF assms(1)] by simp
  have vazio: "Produtos s2 = Produtos s \<and> ItemVendas s2 = ItemVendas s" if "pre = []"
    using assms(4) that by (auto simp: apos_itens_def venda_criada_def)
  have feitas: "\<forall>it \<in> set pre. map_of (ItemVendas s2) (Suc (venda_seq s), ProdutoId it) \<noteq> None"
    using assms(4) unfolding apos_itens_def by (rule processa_itens_linhas_existem)
  show ?thesis
    unfolding fim
    using apos_itens_venda [OF assms(4)] apos_itens_outros(1) [OF assms(4)] linhas vazio feitas
    by simp
qed

theorem failure_confined_to_processed_items_witness:
  "wf_db loja_ab \<and> cliente_ok loja_ab (req_ClienteId (pedido [(1, 1), (2, 1)])) \<and>
   itens (pedido [(1, 1), (2, 1)]) =
     Some ([\<lparr>ProdutoId = 1, item_quantidade = 1\<rparr>] @ \<lparr>ProdutoId = 2, item_quantidade = 1\<rparr> # []) \<and>
   apos_itens loja_ab (pedido [(1, 1), (2, 1)]) [\<lparr>ProdutoId = 1, item_quantidade = 1\<rparr>] =
     Inr (fst (post_vendas loja_ab (pedido [(1, 1), (2, 1)])), 10) \<and>
   item_falha (fst (post_vendas loja_ab (pedido [(1, 1), (2, 1)])))
     \<lparr>ProdutoId = 2, item_quantidade = 1\<rparr> \<and>
   Vendas (fst (post_vendas loja_ab (pedido [(1, 1), (2, 1)]))) =
     (Vendas loja_ab)(1 \<mapsto> \<lparr>ClienteId = Some 1, total = 0\<rparr>) \<and>
   ItemVendas (fst (post_vendas loja_ab (pedido [(1, 1), (2, 1)]))) =
     [((1, 1), \<lparr>quantidade = 1, preco_unitario = 10\<rparr>)] \<and>
   map_option estoque (Produtos (fst (post_vendas loja_ab (pedido [(1, 1), (2, 1)]))) 1) = Some 0 \<and>
   map_of (ItemVendas (fst (post_vendas loja_ab (pedido [(1, 1), (2, 1)])))) (1, 1) \<noteq> None \<and>
   Produtos (fst (post_vendas loja_ab (pedido [(1, 1), (2, 1)]))) 2 = Produtos loja_ab 2 \<and>
   map_of (ItemVendas (fst (post_vendas loja_ab (pedido [(1, 1), (2, 1)])))) (1, 2) = None"
proof -
  let ?req = "pedido [(1, 1), (2, 1)]"
  let ?pre = "[\<lparr>ProdutoId = 1, item_quantidade = 1\<rparr>]"
  let ?it = "\<lparr>ProdutoId = 2, item_quantidade = 1\<rparr>"
  let ?s2 = "store_of (apos_itens loja_ab ?req ?pre)"
  have 1: "itens ?req = Some (?pre @ ?it # [])" by (simp add: pedido_def)
  have 2: "apos_itens loja_ab ?req ?pre = Inr (?s2, 10)"
    by (simp add: apos_itens_def store_of_def loja_ab_def pedido_def ops)
  have 3: "item_falha ?s2 ?it"
    by (simp add: item_falha_def apos_itens_def store_of_def loja_ab_def pedido_def ops)
  have 5: "venda_seq loja_ab = 0" "req_ClienteId ?req = Some 1"
    by (simp_all add: loja_ab_def pedido_def)
  have 8: "ItemVendas ?s2 = [((1, 1), \<lparr>quantidade = 1, preco_unitario = 10\<rparr>)]"
    by (simp add: apos_itens_def store_of_def loja_ab_def pedido_def ops)
  have 9: "map_option estoque (Produtos ?s2 1) = Some 0"
    by (simp add: apos_itens_def store_of_def loja_ab_def pedido_def ops)
  note r = failure_confined_to_processed_items [OF wf_db_loja_ab cliente_ok_loja_ab 1 2 3,
      unfolded 5]
  from r have 6: "fst (post_vendas loja_ab ?req) = ?s2" by (rule conjunct1)
  note r' = r [unfolded 6]
  from r' have a: "Vendas ?s2 = (Vendas loja_ab)(1 \<mapsto> \<lparr>ClienteId = Some 1, total = 0\<rparr>)"
    by simp
  from r' have b: "Produtos ?s2 2 = Produtos loja_ab 2 \<and> map_of (ItemVendas ?s2) (1, 2) = None"
    by simp
  from r' have c: "map_of (ItemVendas ?s2) (1, 1) \<noteq> None" by simp
  from a b c wf_db_loja_ab cliente_ok_loja_ab [of "[(1, 1), (2, 1)]"] 1 2 3 8 9
  show ?thesis unfolding 6 by simp
qed

text \<open>
  C4. When the sale row has been accepted, the loop has passed the items \<open>pre\<close> and the
  next item fails, the call ends (with 404 or 400) in exactly the store the loop had
  reached: nothing is undone. That store holds the sale row of line 109 with total 0,
  and it is, but for that total, the store in which the successful sale of the items
  \<open>pre\<close> alone ends: the same join rows and the same decremented stocks.
\<close>

theorem failure_keeps_applied_effects:
  assumes "cliente_ok s (req_ClienteId req)"
    and "itens req = Some (pre @ it # post)"
    and "apos_itens s req pre = Inr (s2, t)"
    and "item_falha s2 it"
  shows "fst (post_vendas s req) = s2 \<and>
    (status (snd (post_vendas s req)) = 404 \<or> status (snd (post_vendas s req)) = 400) \<and>
    Vendas s2 (Suc (venda_seq s)) = Some \<lparr>ClienteId = req_ClienteId req, total = 0\<rparr> \<and>
    fst (post_vendas s (req\<lparr>itens := Some pre\<rparr>)) =
      venda_update s2 (Suc (venda_seq s)) (req_ClienteId req) t"
proof -
  have a: "post_vendas s req =
      (s2, case Produtos s2 (ProdutoId it) of
             None \<Rightarrow> \<lparr>status = 404, body = Erro msg_nao_encontrado\<rparr>
           | Some produto \<Rightarrow> \<lparr>status = 400, body = Erro (msg_estoque (nome produto))\<rparr>)"
    using assms by (rule post_vendas_falha)
  have b: "apos_itens s (req\<lparr>itens := Some pre\<rparr>) pre = Inr (s2, t)"
    using assms(3) by (simp add: apos_itens_def)
  have c: "post_vendas s (req\<lparr>itens := Some pre\<rparr>) =
      (venda_update s2 (Suc (venda_seq s)) (req_ClienteId req) t,
       \<lparr>status = 201,
        body = VendaJson (Venda_findByPk
          (venda_update s2 (Suc (venda_seq s)) (req_ClienteId req) t) (Suc (venda_seq s)))\<rparr>)"
    using post_vendas_prefixo [of s "req\<lparr>itens := Some pre\<rparr>" pre "[]" s2 t, OF _ _ b] assms(1)
    by simp
  from a c apos_itens_venda [OF assms(3)] show ?thesis
    by (simp split: option.splits)
qed

theorem failure_keeps_applied_effects_witness:
  "cliente_ok loja_ab (req_ClienteId (pedido [(1, 1), (2, 1)])) \<and>
   itens (pedido [(1, 1), (2, 1)]) =
     Some ([\<lparr>ProdutoId = 1, item_quantidade = 1\<rparr>] @ \<lparr>ProdutoId = 2, item_quantidade = 1\<rparr> # []) \<and>
   apos_itens loja_ab (pedido [(1, 1), (2, 1)]) [\<lparr>ProdutoId = 1, item_quantidade = 1\<rparr>] =
     Inr (fst (post_vendas loja_ab (pedido [(1, 1), (2, 1)])), 10) \<and>
   item_falha (fst (post_vendas loja_ab (pedido [(1, 1), (2, 1)])))
     \<lparr>ProdutoId = 2, item_quantidade = 1\<rparr> \<and>
   status (snd (post_vendas loja_ab (pedido [(1, 1), (2, 1)]))) = 400 \<and>
   Vendas (fst (post_vendas loja_ab (pedido [(1, 1), (2, 1)]))) 1 =
     Some \<lparr>ClienteId = Some 1, total = 0\<rparr> \<and>
   ItemVendas (fst (post_vendas loja_ab (pedido [(1, 1), (2, 1)]))) =
     [((1, 1), \<lparr>quantidade = 1, preco_unitario = 10\<rparr>)] \<and>
   map_option estoque (Produtos (fst (post_vendas loja_ab (pedido [(1, 1), (2, 1)]))) 1) = Some 0 \<and>
   fst (post_vendas loja_ab (pedido [(1, 1)])) =
     venda_update (fst (post_vendas loja_ab (pedido [(1, 1), (2, 1)]))) 1 (Some 1) 10"
proof -
  let ?req = "pedido [(1, 1), (2, 1)]"
  let ?pre = "[\<lparr>ProdutoId = 1, item_quantidade = 1\<rparr>]"
  let ?it = "\<lparr>ProdutoId = 2, item_quantidade = 1\<rparr>"
  let ?s2 = "store_of (apos_itens loja_ab ?req ?pre)"
  have 1: "itens ?req = Some (?pre @ ?it # [])" by (simp add: pedido_def)
  have 2: "apos_itens loja_ab ?req ?pre = Inr (?s2, 10)"
    by (simp add: apos_itens_def store_of_def loja_ab_def pedido_def ops)
  have 3: "item_falha ?s2 ?it"
    by (simp add: item_falha_def apos_itens_def store_of_def loja_ab_def pedido_def ops)
  have 4: "?req\<lparr>itens := Some ?pre\<rparr> = pedido [(1, 1)]" by (simp add: pedido_def)
  have 5: "venda_seq loja_ab = 0" "req_ClienteId ?req = Some 1"
    by (simp_all add: loja_ab_def pedido_def)
  note r = failure_keeps_applied_effects [OF cliente_ok_loja_ab 1 2 3, unfolded 4 5]
  have 6: "fst (post_vendas loja_ab ?req) = ?s2" using r by simp
  have 7: "Vendas ?s2 1 = Some \<lparr>ClienteId = Some 1, total = 0\<rparr>" using r by simp
  have 8: "ItemVendas ?s2 = [((1, 1), \<lparr>quantidade = 1, preco_unitario = 10\<rparr>)]"
    by (simp add: apos_itens_def store_of_def loja_ab_def pedido_def ops)
  have 9: "map_option estoque (Produtos ?s2 1) = Some 0"
    by (simp add: apos_itens_def store_of_def loja_ab_def pedido_def ops)
  have 10: "status (snd (post_vendas loja_ab ?req)) = 400"
    by (simp add: cenario ops)
  have 11: "fst (post_vendas loja_ab (pedido [(1, 1)])) = venda_update ?s2 1 (Some 1) 10"
    using r by simp
  from cliente_ok_loja_ab [of "[(1, 1), (2, 1)]"] 1 2 3 7 8 9 10 11
  show ?thesis unfolding 6 by simp
qed

text \<open>
  C6, as stated, fails. Asking for 3 or for 7 of P2 (stock 2) gives the same answer:
  400 with the text naming P2 and no quantity, requested or available. The status is not
  always 400 either: an unknown product met earlier in the list answers 404 first.
\<close>

theorem insufficient_stock_payload_counterexample:
  "post_vendas loja (pedido [(2, 3)]) =
     (fst (post_vendas loja (pedido [(2, 3)])),
      \<lparr>status = 400, body = Erro ''Estoque insuficiente para P2''\<rparr>) \<and>
   post_vendas loja (pedido [(2, 7)]) =
     (fst (post_vendas loja (pedido [(2, 7)])),
      \<lparr>status = 400, body = Erro ''Estoque insuficiente para P2''\<rparr>) \<and>
   snd (post_vendas loja (pedido [(2, 3)])) = snd (post_vendas loja (pedido [(2, 7)])) \<and>
   status (snd (post_vendas loja (pedido [(7, 1), (2, 3)]))) = 404"
  by (simp add: cenario ops msg_estoque_def)

text \<open>
  C6, amended. When the sale row has been accepted and the loop reaches an item (every
  item before it having passed) whose quantity exceeds the product's stock at that
  moment, the call answers 400 with the payload
  \<^verbatim>\<open>{ error: 'Estoque insuficiente para ' + produto.nome }\<close>, which names the product by
  its name and carries no quantity, and the store is the one the earlier items left: no
  join row is written for the failing item.
\<close>

theorem insufficient_stock_response:
  assumes "cliente_ok s (req_ClienteId req)"
    and "itens req = Some (pre @ it # post)"
    and "apos_itens s req pre = Inr (s2, t)"
    and "Produtos s2 (ProdutoId it) = Some produto"
    and "estoque produto < item_quantidade it"
  shows "post_vendas s req =
    (s2, \<lparr>status = 400, body = Erro (''Estoque insuficiente para '' @ nome produto)\<rparr>)"
proof -
  from assms(4,5) have "item_falha s2 it" by (simp add: item_falha_def)
  from post_vendas_falha [OF assms(1,2,3) this] assms(4) show ?thesis
    by (simp add: msg_estoque_def)
qed

theorem insufficient_stock_response_witness:
  "cliente_ok loja (req_ClienteId (pedido [(1, 2), (2, 3)])) \<and>
   itens (pedido [(1, 2), (2, 3)]) =
     Some ([\<lparr>ProdutoId = 1, item_quantidade = 2\<rparr>] @ \<lparr>ProdutoId = 2, item_quantidade = 3\<rparr> # []) \<and>
   apos_itens loja (pedido [(1, 2), (2, 3)]) [\<lparr>ProdutoId = 1, item_quantidade = 2\<rparr>] =
     Inr (fst (post_vendas loja (pedido [(1, 2), (2, 3)])), 20) \<and>
   map_option estoque (Produtos (fst (post_vendas loja (pedido [(1, 2), (2, 3)]))) 2) = Some 2 \<and>
   (2 :: int) < 3 \<and>
   snd (post_vendas loja (pedido [(1, 2), (2, 3)])) =
     \<lparr>status = 400, body = Erro ''Estoque insuficiente para P2''\<rparr> \<and>
   ItemVendas (fst (post_vendas loja (pedido [(1, 2), (2, 3)]))) =
     [((1, 1), \<lparr>quantidade = 2, preco_unitario = 10\<rparr>)]"
proof -
  let ?req = "pedido [(1, 2), (2, 3)]"
  let ?pre = "[\<lparr>ProdutoId = 1, item_quantidade = 2\<rparr>]"
  let ?it = "\<lparr>ProdutoId = 2, item_quantidade = 3\<rparr>"
  let ?s2 = "store_of (apos_itens loja ?req ?pre)"
  let ?p2 = "\<lparr>nome = ''P2'', descricao = None, preco = 20, estoque = 2\<rparr>"
  have 1: "itens ?req = Some (?pre @ ?it # [])" by (simp add: pedido_def)
  have 2: "apos_itens loja ?req ?pre = Inr (?s2, 20)"
    by (simp add: apos_itens_def store_of_def loja_def pedido_def ops)
  have 3: "Produtos ?s2 (ProdutoId ?it) = Some ?p2"
    by (simp add: apos_itens_def store_of_def loja_def pedido_def ops)
  have 4: "estoque ?p2 < item_quantidade ?it" by simp
  have 5: "ItemVendas ?s2 = [((1, 1), \<lparr>quantidade = 2, preco_unitario = 10\<rparr>)]"
    by (simp add: apos_itens_def store_of_def loja_def pedido_def ops)
  note r = insufficient_stock_response [OF cliente_ok_loja 1 2 3 4]
  from r have 6: "fst (post_vendas loja ?req) = ?s2" by simp
  from r have 7: "snd (post_vendas loja ?req) =
      \<lparr>status = 400, body = Erro ''Estoque insuficiente para P2''\<rparr>" by simp
  from 3 have 8: "map_option estoque (Produtos ?s2 2) = Some 2" by simp
  from cliente_ok_loja [of "[(1, 2), (2, 3)]"] 1 2 5 8 show ?thesis unfolding 6 7 by simp
qed

text \<open>
  C7, as stated, fails. The unknown ids 7 and 9 get the same answer, 404 with a fixed
  text that contains no id. The status is not always 404 either: an item short of stock
  met earlier in the list answers 400 first.
\<close>

theorem product_not_found_payload_counterexample:
  "snd (post_vendas loja (pedido [(7, 1)])) =
     \<lparr>status = 404, body = Erro (''Produto n'' @ [CHR 0xC3, CHR 0xA3] @ ''o encontrado'')\<rparr> \<and>
   snd (post_vendas loja (pedido [(9, 1)])) =
     \<lparr>status = 404, body = Erro (''Produto n'' @ [CHR 0xC3, CHR 0xA3] @ ''o encontrado'')\<rparr> \<and>
   Produtos loja 7 = None \<and>
   status (snd (post_vendas loja (pedido [(2, 3), (7, 1)]))) = 400"
  by (simp add: cenario ops msg_nao_encontrado_def)

text \<open>
  C7, amended. When the sale row has been accepted and the loop reaches an item (every
  item before it having passed) whose \<^verbatim>\<open>ProdutoId\<close> has no product, the call answers 404
  with the fixed payload \<^verbatim>\<open>{ error: 'Produto nao encontrado' }\<close> (with a-tilde), whatever
  the id, and the store is the one the earlier items left.
\<close>

theorem product_not_found_response:
  assumes "cliente_ok s (req_ClienteId req)"
    and "itens req = Some (pre @ it # post)"
    and "apos_itens s req pre = Inr (s2, t)"
    and "Produtos s2 (ProdutoId it) = None"
  shows "post_vendas s req =
    (s2, \<lparr>status = 404,
          body = Erro (''Produto n'' @ [CHR 0xC3, CHR 0xA3] @ ''o encontrado'')\<rparr>)"
proof -
  from assms(4) have "item_falha s2 it" by (simp add: item_falha_def)
  from post_vendas_falha [OF assms(1,2,3) this] assms(4) show ?thesis
    by (simp add: msg_nao_encontrado_def)
qed

theorem product_not_found_response_witness:
  "cliente_ok loja (req_ClienteId (pedido [(1, 2), (7, 1)])) \<and>
   itens (pedido [(1, 2), (7, 1)]) =
     Some ([\<lparr>ProdutoId = 1, item_quantidade = 2\<rparr>] @ \<lparr>ProdutoId = 7, item_quantidade = 1\<rparr> # []) \<and>
   apos_itens loja (pedido [(1, 2), (7, 1)]) [\<lparr>ProdutoId = 1, item_quantidade = 2\<rparr>] =
     Inr (fst (post_vendas loja (pedido [(1, 2), (7, 1)])), 20) \<and>
   Produtos (fst (post_vendas loja (pedido [(1, 2), (7, 1)]))) 7 = None \<and>
   snd (post_vendas loja (pedido [(1, 2), (7, 1)])) =
     \<lparr>status = 404, body = Erro (''Produto n'' @ [CHR 0xC3, CHR 0xA3] @ ''o encontrado'')\<rparr> \<and>
   ItemVendas (fst (post_vendas loja (pedido [(1, 2), (7, 1)]))) =
     [((1, 1), \<lparr>quantidade = 2, preco_unitario = 10\<rparr>)]"
proof -
  let ?req = "pedido [(1, 2), (7, 1)]"
  let ?pre = "[\<lparr>ProdutoId = 1, item_quantidade = 2\<rparr>]"
  let ?it = "\<lparr>ProdutoId = 7, item_quantidade = 1\<rparr>"
  let ?s2 = "store_of (apos_itens loja ?req ?pre)"
  have 1: "itens ?req = Some (?pre @ ?it # [])" by (simp add: pedido_def)
  have 2: "apos_itens loja ?req ?pre = Inr (?s2, 20)"
    by (simp add: apos_itens_def store_of_def loja_def pedido_def ops)
  have 3: "Produtos ?s2 (ProdutoId ?it) = None"
    by (simp add: apos_itens_def store_of_def loja_def pedido_def ops)
  have 5: "ItemVendas ?s2 = [((1, 1), \<lparr>quantidade = 2, preco_unitario = 10\<rparr>)]"
    by (simp add: apos_itens_def store_of_def loja_def pedido_def ops)
  note r = product_not_found_response [OF cliente_ok_loja 1 2 3]
  from r have 6: "fst (post_vendas loja ?req) = ?s2" by simp
  from r have 7: "snd (post_vendas loja ?req) =
      \<lparr>status = 404, body = Erro (''Produto n'' @ [CHR 0xC3, CHR 0xA3] @ ''o encontrado'')\<rparr>"
    by simp
  from 3 have 8: "Produtos ?s2 7 = None" by simp
  from cliente_ok_loja [of "[(1, 2), (7, 1)]"] 1 2 5 8 show ?thesis unfolding 6 7 by simp
qed

text \<open>
  C9, as stated, fails. An item of quantity -1 is accepted: the call answers 201, the
  stock of P1 goes from 5 to 6, a join row of quantity -1 is written and the sale's
  total is -10. Quantity 0 is accepted too, and a request without \<^verbatim>\<open>itens\<close> is answered
  with 500, not with a 4xx.
\<close>

theorem nonpositive_quantity_counterexample:
  "status (snd (post_vendas loja (pedido [(1, - 1)]))) = 201 \<and>
   map_option estoque (Produtos loja 1) = Some 5 \<and>
   map_option estoque (Produtos (fst (post_vendas loja (pedido [(1, - 1)]))) 1) = Some 6 \<and>
   ItemVendas (fst (post_vendas loja (pedido [(1, - 1)]))) =
     [((1, 1), \<lparr>quantidade = - 1, preco_unitario = 10\<rparr>)] \<and>
   Vendas (fst (post_vendas loja (pedido [(1, - 1)]))) 1 =
     Some \<lparr>ClienteId = Some 1, total = - 10\<rparr> \<and>
   status (snd (post_vendas loja (pedido [(1, 0)]))) = 201 \<and>
   status (snd (post_vendas loja \<lparr>req_ClienteId = Some 1, itens = None\<rparr>)) = 500"
  by (simp add: cenario ops)

text \<open>
  C9, amended. The handler does not validate quantities: on a store without negative
  stock, a request whose customer id is absent or names an existing customer and whose
  items all name existing products with quantities at most 0 succeeds with 201 and
  writes to the store: the sale row is there, bound to the request's customer id, every
  requested product has a join row of that sale, and no product's stock has gone down.
\<close>

theorem nonpositive_quantity_accepted:
  assumes "stock_ok s"
    and "cliente_ok s (req_ClienteId req)"
    and "itens req = Some its"
    and "\<forall>it \<in> set its. item_quantidade it \<le> 0 \<and> ProdutoId it \<in> dom (Produtos s)"
  shows "status (snd (post_vendas s req)) = 201 \<and>
    map_option ClienteId (Vendas (fst (post_vendas s req)) (Suc (venda_seq s))) =
      Some (req_ClienteId req) \<and>
    (\<forall>it \<in> set its.
       map_of (ItemVendas (fst (post_vendas s req))) (Suc (venda_seq s), ProdutoId it) \<noteq> None) \<and>
    (\<forall>p pr. Produtos s p = Some pr \<longrightarrow>
       (\<exists>pr'. Produtos (fst (post_vendas s req)) p = Some pr' \<and> estoque pr \<le> estoque pr'))"
proof -
  let ?vid = "Suc (venda_seq s)"
  let ?s1 = "venda_criada s (req_ClienteId req)"
  have ok1: "stock_ok ?s1" using assms(1) by (simp add: stock_ok_def venda_criada_def)
  have dom1: "\<forall>it \<in> set its. item_quantidade it \<le> 0 \<and> ProdutoId it \<in> dom (Produtos ?s1)"
    using assms(4) by (simp add: venda_criada_def)
  from processa_itens_aceita [OF ok1 dom1, of ?vid 0]
  obtain s2 t where run: "apos_itens s req its = Inr (s2, t)"
    by (auto simp: apos_itens_def)
  from assms(3) have "itens req = Some (its @ [])" by simp
  from post_vendas_prefixo [OF assms(2) this run]
  have pv: "post_vendas s req =
      (venda_update s2 ?vid (req_ClienteId req) t,
       \<lparr>status = 201,
        body = VendaJson (Venda_findByPk
          (venda_update s2 ?vid (req_ClienteId req) t) ?vid)\<rparr>)"
    by simp
  from run have run': "processa_itens ?vid its (?s1, 0) = Inr (s2, t)"
    by (simp add: apos_itens_def)
  have linhas: "\<forall>it \<in> set its. map_of (ItemVendas s2) (?vid, ProdutoId it) \<noteq> None"
    using run' by (rule processa_itens_linhas_existem)
  have qs: "\<forall>it \<in> set its. item_quantidade it \<le> 0" using assms(4) by simp
  have estoques: "\<exists>pr'. Produtos s2 p = Some pr' \<and> estoque pr \<le> estoque pr'"
    if "Produtos s p = Some pr" for p pr
  proof -
    from that have "Produtos ?s1 p = Some pr" by (simp add: venda_criada_def)
    with run' qs show ?thesis by (rule processa_itens_nao_diminui)
  qed
  from pv linhas estoques show ?thesis by (simp add: venda_update_def)
qed

theorem nonpositive_quantity_accepted_witness:
  "stock_ok loja \<and> cliente_ok loja (req_ClienteId (pedido [(1, - 1)])) \<and>
   itens (pedido [(1, - 1)]) = Some [\<lparr>ProdutoId = 1, item_quantidade = - 1\<rparr>] \<and>
   item_quantidade \<lparr>ProdutoId = 1, item_quantidade = - 1\<rparr> \<le> 0 \<and>
   ProdutoId \<lparr>ProdutoId = 1, item_quantidade = - 1\<rparr> \<in> dom (Produtos loja) \<and>
   status (snd (post_vendas loja (pedido [(1, - 1)]))) = 201 \<and>
   map_option ClienteId (Vendas (fst (post_vendas loja (pedido [(1, - 1)]))) 1) = Some (Some 1) \<and>
   map_of (ItemVendas (fst (post_vendas loja (pedido [(1, - 1)])))) (1, 1) \<noteq> None \<and>
   map_option estoque (Produtos (fst (post_vendas loja (pedido [(1, - 1)]))) 1) = Some 6"
proof -
  let ?its = "[\<lparr>ProdutoId = 1, item_quantidade = - 1\<rparr>]"
  let ?s' = "fst (post_vendas loja (pedido [(1, - 1)]))"
  have 1: "itens (pedido [(1, - 1)]) = Some ?its" by (simp add: pedido_def)
  have 2: "\<forall>it \<in> set ?its. item_quantidade it \<le> 0 \<and> ProdutoId it \<in> dom (Produtos loja)"
    by (simp add: loja_def)
  have 0: "venda_seq loja = 0" "req_ClienteId (pedido [(1, - 1)]) = Some 1"
    by (simp_all add: loja_def pedido_def)
  note r = nonpositive_quantity_accepted [OF stock_ok_loja cliente_ok_loja 1 2, unfolded 0]
  from r have 3: "status (snd (post_vendas loja (pedido [(1, - 1)]))) = 201" by simp
  from r have 4: "map_option ClienteId (Vendas ?s' 1) = Some (Some 1)" by simp
  from r have 5: "map_of (ItemVendas ?s') (1, 1) \<noteq> None" by simp
  have 6: "map_option estoque (Produtos ?s' 1) = Some 6" by (simp add: cenario ops)
  from stock_ok_loja cliente_ok_loja [of "[(1, - 1)]"] 1 2 3 4 5 6 show ?thesis by simp
qed

text \<open>
  C1, evaluated where the handler departs from it. The request names product 1 twice,
  with quantities 2 and 1: the call answers 201 and stores the total 30, the sum over
  the two requested items, while the sale has one persisted join row, of quantity 1 at
  unit price 10, so the sum over the persisted line items is 10.
\<close>

theorem total_differs_from_line_items_on_repeated_product:
  "status (snd (post_vendas loja (pedido [(1, 2), (1, 1)]))) = 201 \<and>
   map_option total (Vendas (fst (post_vendas loja (pedido [(1, 2), (1, 1)]))) 1) = Some 30 \<and>
   itens_da_venda (fst (post_vendas loja (pedido [(1, 2), (1, 1)]))) 1 =
     [(1, \<lparr>quantidade = 1, preco_unitario = 10\<rparr>)] \<and>
   soma_itens (fst (post_vendas loja (pedido [(1, 2), (1, 1)]))) 1 = 10"
  by (simp add: cenario ops soma_itens_def itens_da_venda_def)

text \<open>
  C8, evaluated where the handler departs from it. The same request has two entries
  and the call answers 201, but the sale has a single join row: the second
  \<^verbatim>\<open>addProduto\<close> for product 1 overwrote the quantity 2 of the first with 1. The stock
  was decremented for both entries (from 5 to 2).
\<close>

theorem repeated_product_one_row:
  "status (snd (post_vendas loja (pedido [(1, 2), (1, 1)]))) = 201 \<and>
   length (the (itens (pedido [(1, 2), (1, 1)]))) = 2 \<and>
   length (itens_da_venda (fst (post_vendas loja (pedido [(1, 2), (1, 1)]))) 1) = 1 \<and>
   ItemVendas (fst (post_vendas loja (pedido [(1, 2), (1, 1)]))) =
     [((1, 1), \<lparr>quantidade = 1, preco_unitario = 10\<rparr>)] \<and>
   map_option estoque (Produtos (fst (post_vendas loja (pedido [(1, 2), (1, 1)]))) 1) = Some 2"
  by (simp add: cenario ops itens_da_venda_def)

section \<open>What holds of the join rows\<close>

text \<open>
  When the product ids of the request are pairwise distinct, an accepted sale has
  exactly one join row for each requested item, in the order of the request, with the
  item's quantity and the product's price.
\<close>

theorem distinct_products_one_row_each:
  assumes "wf_db s" and "itens req = Some its" and "distinct (map ProdutoId its)"
    and "status (snd (post_vendas s req)) = 201"
  shows "itens_da_venda (fst (post_vendas s req)) (Suc (venda_seq s)) = linhas_pedido s its"
proof -
  let ?vid = "Suc (venda_seq s)"
  let ?s1 = "venda_criada s (req_ClienteId req)"
  from post_vendas_201 [OF assms(2,4)] obtain s2 t
    where run: "apos_itens s req its = Inr (s2, t)"
      and pv: "fst (post_vendas s req) = venda_update s2 ?vid (req_ClienteId req) t"
    by auto
  have livres: "\<forall>it \<in> set its. map_of (ItemVendas ?s1) (?vid, ProdutoId it) = None"
    using wf_db_sem_linhas [OF assms(1)] by (simp add: venda_criada_def)
  have "ItemVendas s2 = ItemVendas ?s1 @ map (\<lambda>(p, iv). ((?vid, p), iv)) (linhas_pedido ?s1 its)"
    using run assms(3) livres unfolding apos_itens_def by (rule processa_itens_linhas)
  moreover have "linhas_pedido ?s1 its = linhas_pedido s its"
    by (simp add: linhas_pedido_def preco_de_def venda_criada_def)
  ultimately have iv: "ItemVendas s2 =
      ItemVendas s @ map (\<lambda>(p, iv). ((?vid, p), iv)) (linhas_pedido s its)"
    by (simp add: venda_criada_def)
  have "itens_da_venda s2 ?vid = itens_da_venda s ?vid @ linhas_pedido s its"
    by (simp add: itens_da_venda_def iv filter_map o_def split_beta)
  with wf_db_itens_da_venda [OF assms(1)] show ?thesis
    by (simp add: pv venda_update_def itens_da_venda_def)
qed

lemma distinct_products_one_row_each_example:
  "itens_da_venda (fst (post_vendas loja (pedido [(1, 2), (2, 1)]))) 1 =
     [(1, \<lparr>quantidade = 2, preco_unitario = 10\<rparr>), (2, \<lparr>quantidade = 1, preco_unitario = 20\<rparr>)]"
proof -
  let ?req = "pedido [(1, 2), (2, 1)]"
  let ?its = "[\<lparr>ProdutoId = 1, item_quantidade = 2\<rparr>, \<lparr>ProdutoId = 2, item_quantidade = 1\<rparr>]"
  have 1: "itens ?req = Some ?its" by (simp add: pedido_def)
  have 2: "distinct (map ProdutoId ?its)" by simp
  have 3: "status (snd (post_vendas loja ?req)) = 201" by (simp add: cenario ops)
  have 4: "venda_seq loja = 0" by (simp add: loja_def)
  have 5: "linhas_pedido loja ?its =
      [(1, \<lparr>quantidade = 2, preco_unitario = 10\<rparr>), (2, \<lparr>quantidade = 1, preco_unitario = 20\<rparr>)]"
    by (simp add: linhas_pedido_def preco_de_def loja_def)
  from distinct_products_one_row_each [OF wf_db_loja 1 2 3, unfolded 4 5] show ?thesis
    by simp
qed

text \<open>
  A call writes join rows for its own sale only: the line items of every other sale,
  so of every sale that exists when the call starts, are the same after the call.
\<close>

theorem other_sales_untouched:
  "v \<noteq> Suc (venda_seq s) \<Longrightarrow>
   itens_da_venda (fst (post_vendas s req)) v = itens_da_venda s v"
proof (cases "cliente_ok s (req_ClienteId req)")
  case False
  from post_vendas_rejeitada [OF False] show ?thesis by simp
next
  case True
  assume v: "v \<noteq> Suc (venda_seq s)"
  let ?s1 = "venda_criada s (req_ClienteId req)"
  have 1: "itens_da_venda ?s1 v = itens_da_venda s v"
    by (simp add: itens_da_venda_def venda_criada_def)
  show ?thesis
  proof (cases "itens req")
    case None
    with 1 True show ?thesis by (simp add: post_vendas_def Venda_create_def)
  next
    case (Some its)
    from processa_itens_outras_vendas [OF v, of its ?s1 0] 1 Some True show ?thesis
      by (auto simp: post_vendas_def Venda_create_def Let_def store_of_def venda_update_def
            itens_da_venda_def split: sum.splits)
  qed
qed

end
